theory Spec2Isabelle
  imports Main "HOL-Library.Word"
begin

section \<open>Data model\<close>

text \<open>
  The records follow the type declarations of \<^verbatim>\<open>src/gif/utils.ts\<close> and of the editor
  component. Several of them share field names (\<^verbatim>\<open>width\<close>, \<^verbatim>\<open>delay\<close>, \<^verbatim>\<open>data\<close>, ...), so
  the selectors are written with their record name throughout. JavaScript numbers that
  hold counts, coordinates and delays are natural numbers here: the codec reads them
  from unsigned 16-bit fields of the container.
\<close>

text \<open>
  The exceptions of the model: the \<^verbatim>\<open>Error\<close> thrown at line 69 of \<^verbatim>\<open>src/gif/utils.ts\<close>, a
  \<^verbatim>\<open>TypeError\<close> of the language, an exception of the codec, and the two exceptions of the
  platform that \<^verbatim>\<open>loadFrames\<close> can meet: \<^verbatim>\<open>InvalidStateError\<close> (drawing a detached
  \<^verbatim>\<open>ImageBitmap\<close>) and \<^verbatim>\<open>IndexSizeError\<close> (an \<^verbatim>\<open>ImageData\<close> with a side of 0).
\<close>

datatype error = NoRestorePoint | TypeError | CodecError | InvalidStateError | IndexSizeError

record GifMetadata =
  width :: nat
  height :: nat
  frameCount :: nat
  loopCount :: nat

record GifFrameInfo =
  x :: nat
  y :: nat
  width :: nat
  height :: nat
  has_local_palette :: bool
  palette_offset :: nat
  palette_size :: nat
  data_offset :: nat
  data_length :: nat
  transparent_index :: "nat option"
  interlaced :: bool
  delay :: nat
  disposal :: nat

text \<open>
  One raster type stands for \<^verbatim>\<open>ImageData\<close>, for the bitmap of a canvas and for an
  \<^verbatim>\<open>ImageBitmap\<close>: \<^verbatim>\<open>data\<close> holds four bytes (red, green, blue, alpha) per pixel, row by
  row, as \<^verbatim>\<open>ImageData.data\<close> does.
\<close>

record ImageData =
  width :: nat
  height :: nat
  data :: "8 word list"

record GifFrameData =
  index :: nat
  delay :: nat
  data :: ImageData
  isPaletteGlobal :: bool
  palette :: "32 word list"

text \<open>\<^verbatim>\<open>type FrameState = { deleted?: boolean }\<close>: the field may be absent.\<close>

record FrameState =
  deleted :: "bool option"

section \<open>Frame edit model (editor component)\<close>

subsection \<open>The drop-merge loop of \<^verbatim>\<open>download\<close>\<close>

text \<open>
  The loop runs over \<^verbatim>\<open>i = 0 ..< frameCount\<close>. The download button is disabled unless
  \<^verbatim>\<open>frames.length === frameCount\<close>, so the loop visits exactly the elements of
  \<^verbatim>\<open>frames\<close>; the model recurses over them and keeps the index \<^verbatim>\<open>i\<close> for the lookup
  in \<^verbatim>\<open>frameStates\<close>. Reading \<^verbatim>\<open>.deleted\<close> of \<^verbatim>\<open>frameStates[i]\<close> when that is
  \<^verbatim>\<open>undefined\<close>, and reading \<^verbatim>\<open>.delay\<close> of \<^verbatim>\<open>framesToSave[framesToSave.length - 1]\<close>
  when \<^verbatim>\<open>framesToSave\<close> is empty, raise a \<^verbatim>\<open>TypeError\<close>.
\<close>

fun downloadLoop ::
  "GifFrameData list \<Rightarrow> FrameState list \<Rightarrow> nat \<Rightarrow> GifFrameData list \<Rightarrow> error + GifFrameData list"
where
  "downloadLoop [] frameStates i framesToSave = Inr framesToSave"
| "downloadLoop (frame # rest) frameStates i framesToSave =
     (if i < length frameStates then
        (if deleted (frameStates ! i) = Some True then
           (if framesToSave = [] then Inl TypeError
            else downloadLoop rest frameStates (Suc i)
                   (butlast framesToSave @
                    [(last framesToSave)\<lparr>GifFrameData.delay :=
                        GifFrameData.delay (last framesToSave) + GifFrameData.delay frame\<rparr>]))
         else downloadLoop rest frameStates (Suc i) (framesToSave @ [frame]))
      else Inl TypeError)"

text \<open>
  \<^verbatim>\<open>download\<close> returns the arguments it passes to \<^verbatim>\<open>writeGifToFile\<close> (the call that
  starts the encode pipeline), or the exception raised before that call.
\<close>

definition download ::
  "GifMetadata \<Rightarrow> GifFrameData list \<Rightarrow> FrameState list \<Rightarrow> error + (GifMetadata \<times> GifFrameData list)"
where
  "download metadata frames frameStates =
     (case downloadLoop frames frameStates 0 [] of
        Inl e \<Rightarrow> Inl e
      | Inr framesToSave \<Rightarrow>
          Inr (metadata\<lparr>frameCount := length framesToSave\<rparr>, framesToSave))"

text \<open>The indices of the frames that are not marked deleted, among the first \<open>n\<close>.\<close>

definition survivors :: "FrameState list \<Rightarrow> nat \<Rightarrow> nat list" where
  "survivors frameStates n = filter (\<lambda>i. deleted (frameStates ! i) \<noteq> Some True) [0..<n]"

text \<open>
  The rule of the specification, in its words: an accumulator collects the delays of
  deleted frames, a surviving frame takes its own delay plus the accumulator, and the
  accumulator is reset.
\<close>

fun spec_buildEncodeSequence :: "(nat \<times> bool) list \<Rightarrow> nat \<Rightarrow> nat list" where
  "spec_buildEncodeSequence [] acc = []"
| "spec_buildEncodeSequence ((d, del) # rest) acc =
     (if del then spec_buildEncodeSequence rest (acc + d)
      else (d + acc) # spec_buildEncodeSequence rest 0)"

subsection \<open>The state updaters of \<^verbatim>\<open>onKeyDown\<close>\<close>

text \<open>
  \<^verbatim>\<open>ArrowDown\<close> and \<^verbatim>\<open>ArrowUp\<close> pass an updater to \<^verbatim>\<open>setFrameStates\<close>. The updater reads
  \<^verbatim>\<open>curr[selectedFrame].deleted\<close>, which raises a \<^verbatim>\<open>TypeError\<close> when
  \<^verbatim>\<open>curr[selectedFrame]\<close> is \<^verbatim>\<open>undefined\<close>.
\<close>

definition onArrowDown :: "FrameState list \<Rightarrow> int \<Rightarrow> error + FrameState list" where
  "onArrowDown current selectedFrame =
     (if 0 \<le> selectedFrame \<and> selectedFrame < int (length current) then
        (if deleted (current ! nat selectedFrame) = Some True then Inr current
         else Inr (current[nat selectedFrame := (current ! nat selectedFrame)\<lparr>deleted := Some True\<rparr>]))
      else Inl TypeError)"

definition onArrowUp :: "FrameState list \<Rightarrow> int \<Rightarrow> error + FrameState list" where
  "onArrowUp current selectedFrame =
     (if 0 \<le> selectedFrame \<and> selectedFrame < int (length current) then
        (if deleted (current ! nat selectedFrame) \<noteq> Some True then Inr current
         else Inr (current[nat selectedFrame := (current ! nat selectedFrame)\<lparr>deleted := Some False\<rparr>]))
      else Inl TypeError)"

text \<open>
  The state of the editor before the metadata of a file has arrived:
  \<^verbatim>\<open>useState<FrameState[]>([])\<close> and \<^verbatim>\<open>useState<number>(0)\<close>. The key handler is
  attached from the first render on.
\<close>

definition initialFrameStates :: "FrameState list" where
  "initialFrameStates = []"

definition initialSelectedFrame :: int where
  "initialSelectedFrame = 0"

text \<open>
  The invariant of the drop-merge loop after \<open>n\<close> frames: \<open>out\<close> holds the survivors
  among them, each with the delays from its own index up to the next survivor (or up
  to \<open>n\<close> for the last one).
\<close>

definition mergedPrefix ::
  "GifFrameData list \<Rightarrow> FrameState list \<Rightarrow> nat \<Rightarrow> GifFrameData list \<Rightarrow> bool"
where
  "mergedPrefix frames frameStates n out \<longleftrightarrow>
     length out = length (survivors frameStates n) \<and>
     (\<forall>k<length (survivors frameStates n).
        out ! k = (frames ! (survivors frameStates n ! k))\<lparr>GifFrameData.delay :=
          (\<Sum>j = survivors frameStates n ! k ..<
                 (if Suc k < length (survivors frameStates n) then survivors frameStates n ! Suc k
                  else n).
             GifFrameData.delay (frames ! j))\<rparr>)"

section \<open>Palette indexing at encode time (\<^verbatim>\<open>src/gif/utils.ts\<close>)\<close>

text \<open>\<^verbatim>\<open>image.data[k]\<close>: \<^verbatim>\<open>undefined\<close> beyond the end of the array.\<close>

definition byteAt :: "ImageData \<Rightarrow> nat \<Rightarrow> 8 word option" where
  "byteAt img k =
     (if k < length (ImageData.data img) then Some (ImageData.data img ! k) else None)"

text \<open>
  The first loop of \<^verbatim>\<open>encodeImage\<close>: \<^verbatim>\<open>indexedColors[palette[i]] = i\<close> for increasing
  \<^verbatim>\<open>i\<close>. The keys are the decimal strings of the colours, which are equal exactly when
  the numbers are; a later entry of the same colour overwrites an earlier one.
\<close>

fun indexColors :: "32 word list \<Rightarrow> nat \<Rightarrow> (nat \<rightharpoonup> nat) \<Rightarrow> (nat \<rightharpoonup> nat)" where
  "indexColors [] i indexedColors = indexedColors"
| "indexColors (c # rest) i indexedColors =
     indexColors rest (Suc i) (indexedColors(unat c \<mapsto> i))"

text \<open>
  \<^verbatim>\<open>v << n\<close> for a byte \<^verbatim>\<open>v\<close> and \<^verbatim>\<open>n\<close> at most 16 (no 32-bit overflow);
  \<^verbatim>\<open>undefined << n\<close> is 0.
\<close>

definition shiftLeft :: "8 word option \<Rightarrow> nat \<Rightarrow> nat" where
  "shiftLeft v n = (case v of None \<Rightarrow> 0 | Some b \<Rightarrow> unat b * 2 ^ n)"

text \<open>
  \<^verbatim>\<open>(r << 16) + (g << 8) + b\<close> for pixel \<^verbatim>\<open>i\<close>; adding \<^verbatim>\<open>undefined\<close> gives \<^verbatim>\<open>NaN\<close>, which
  is \<open>None\<close> here.
\<close>

definition pixelColor :: "ImageData \<Rightarrow> nat \<Rightarrow> nat option" where
  "pixelColor img i =
     (case byteAt img (i * 4 + 2) of
        None \<Rightarrow> None
      | Some b \<Rightarrow>
          Some (shiftLeft (byteAt img (i * 4)) 16 + shiftLeft (byteAt img (i * 4 + 1)) 8 + unat b))"

text \<open>
  Storing into a \<^verbatim>\<open>Uint8Array\<close>: a number is reduced modulo 256, \<^verbatim>\<open>undefined\<close> is
  stored as 0.
\<close>

definition storeUint8 :: "nat option \<Rightarrow> 8 word" where
  "storeUint8 v = (case v of None \<Rightarrow> 0 | Some n \<Rightarrow> of_nat n)"

definition encodeImage :: "ImageData \<Rightarrow> 32 word list \<Rightarrow> 8 word list" where
  "encodeImage img colors =
     map (\<lambda>i. storeUint8 (case pixelColor img i of
                             None \<Rightarrow> None
                           | Some color \<Rightarrow> indexColors colors 0 Map.empty color))
         [0..<ImageData.width img * ImageData.height img]"

definition convertPalette :: "8 word list \<Rightarrow> 32 word list" where
  "convertPalette bytes =
     map (\<lambda>i. of_nat (unat (bytes ! (i * 3)) * 2 ^ 16 + unat (bytes ! (i * 3 + 1)) * 2 ^ 8 +
                       unat (bytes ! (i * 3 + 2))))
         [0..<length bytes div 3]"

section \<open>Disposal compositor\<close>

subsection \<open>Canvas operations\<close>

text \<open>
  \<^verbatim>\<open>new OffscreenCanvas(w, h)\<close> and \<^verbatim>\<open>new ImageData(w, h)\<close> start as transparent black.
\<close>

definition blankImage :: "nat \<Rightarrow> nat \<Rightarrow> ImageData" where
  "blankImage w h = \<lparr>ImageData.width = w, height = h, data = replicate (4 * w * h) 0\<rparr>"

text \<open>
  \<^verbatim>\<open>ctx.clearRect(rx, ry, rw, rh)\<close> under the identity transform: the pixels of the canvas
  inside the rectangle become transparent black. Byte \<open>k\<close> of the bitmap belongs to the
  pixel in column \<open>(k div 4) mod width\<close> of row \<open>(k div 4) div width\<close>.
\<close>

definition clearRect :: "nat \<Rightarrow> nat \<Rightarrow> nat \<Rightarrow> nat \<Rightarrow> ImageData \<Rightarrow> ImageData" where
  "clearRect rx ry rw rh cv =
     cv\<lparr>ImageData.data :=
          map (\<lambda>k. let px = (k div 4) mod ImageData.width cv;
                       py = (k div 4) div ImageData.width cv
                   in if rx \<le> px \<and> px < rx + rw \<and> ry \<le> py \<and> py < ry + rh then 0
                      else ImageData.data cv ! k)
              [0..<length (ImageData.data cv)]\<rparr>"

text \<open>
  \<^verbatim>\<open>ctx.putImageData(img, 0, 0, dirtyX, dirtyY, dirtyWidth, dirtyHeight)\<close>: the pixels of
  \<^verbatim>\<open>img\<close> inside the dirty rectangle (clipped to \<^verbatim>\<open>img\<close>) replace those of the canvas at
  the same coordinates, without blending.
\<close>

definition putImageData ::
  "ImageData \<Rightarrow> nat \<Rightarrow> nat \<Rightarrow> nat \<Rightarrow> nat \<Rightarrow> ImageData \<Rightarrow> ImageData"
where
  "putImageData img dirtyX dirtyY dirtyWidth dirtyHeight cv =
     cv\<lparr>ImageData.data :=
          map (\<lambda>k. let px = (k div 4) mod ImageData.width cv;
                       py = (k div 4) div ImageData.width cv;
                       src = 4 * (py * ImageData.width img + px) + k mod 4
                   in if dirtyX \<le> px \<and> px < dirtyX + dirtyWidth \<and> px < ImageData.width img \<and>
                         dirtyY \<le> py \<and> py < dirtyY + dirtyHeight \<and> py < ImageData.height img \<and>
                         src < length (ImageData.data img)
                      then ImageData.data img ! src
                      else ImageData.data cv ! k)
              [0..<length (ImageData.data cv)]\<rparr>"

text \<open>
  \<^verbatim>\<open>ctx.drawImage(bitmap, 0, 0)\<close> blends the bitmap onto the canvas with the context's
  composite operation; the blending arithmetic belongs to the platform, so the
  operation is an argument of the model: it maps the bitmap drawn and the canvas to the
  new canvas.
\<close>

type_synonym drawImage = "ImageData \<Rightarrow> ImageData \<Rightarrow> ImageData"

subsection \<open>The codec's reader\<close>

text \<open>
  The reader object of the codec library: its dimensions, its frame descriptors and its
  decoder. \<^verbatim>\<open>decodeAndBlitFrameRGBA(i, pixels, palette)\<close> writes into both arrays; here it
  returns their new contents.
\<close>

record GifReader =
  width :: nat
  height :: nat
  numFrames :: nat
  frameInfo :: "nat \<Rightarrow> GifFrameInfo"
  decodeAndBlitFrameRGBA :: "nat \<Rightarrow> 8 word list \<Rightarrow> 8 word list \<Rightarrow> 8 word list \<times> 8 word list"

text \<open>
  Lines 78 to 88 of \<^verbatim>\<open>src/gif/utils.ts\<close> (and the same lines of \<^verbatim>\<open>src/gif.ts\<close>): decode
  frame \<open>i\<close> into the scratch buffer and paint its sub-rectangle onto the canvas.
  The result is the new scratch buffer, the new canvas and the palette bytes.
\<close>

definition decodeAndPaint ::
  "GifReader \<Rightarrow> nat \<Rightarrow> ImageData \<Rightarrow> ImageData \<Rightarrow> ImageData \<times> ImageData \<times> 8 word list"
where
  "decodeAndPaint gifReader i scratchData cv =
     (let fi = frameInfo gifReader i;
          decoded = decodeAndBlitFrameRGBA gifReader i (ImageData.data scratchData)
                      (replicate (palette_size fi * 3) 0);
          scratchData' = scratchData\<lparr>ImageData.data := fst decoded\<rparr>
      in (scratchData',
          putImageData scratchData' (x fi) (y fi) (GifFrameInfo.width fi) (GifFrameInfo.height fi) cv,
          snd decoded))"

subsection \<open>\<^verbatim>\<open>loadFrames\<close> of \<^verbatim>\<open>src/gif/utils.ts\<close>\<close>

text \<open>
  \<^verbatim>\<open>loadFrames\<close> is a generator: at each \<^verbatim>\<open>yield\<close> its consumer runs before the loop
  goes on. The frame kept as restore point is the yielded object itself, so what the
  consumer does to its \<^verbatim>\<open>ImageBitmap\<close> matters to the generator: a bitmap that has been
  transferred is detached, and drawing a detached bitmap raises \<^verbatim>\<open>InvalidStateError\<close>.
  A consumer is modelled by what it does to the bitmap of a yielded frame: \<open>True\<close> when
  it transfers it.

  The reader worker, the only consumer in the repository, posts every frame with
  \<^verbatim>\<open>transfer: [frame.data, frame.palette.buffer]\<close>. A consumer that only reads the
  frames keeps every bitmap attached.
\<close>

type_synonym consumer = "GifFrameData \<Rightarrow> bool"

definition readerWorker :: consumer where
  "readerWorker frame = True"

definition keepsBitmaps :: consumer where
  "keepsBitmaps frame = False"

text \<open>
  The local variables of the generator, the frames it has yielded so far, and the
  indices of the yielded frames whose bitmap is detached.
\<close>

record LoadFramesState =
  canvas :: ImageData
  prevFrameInfo :: "GifFrameInfo option"
  prevRestorePoint :: "GifFrameData option"
  scratchData :: ImageData
  yielded :: "GifFrameData list"
  detached :: "nat list"

text \<open>
  The state in which the loop starts. It is reached only when both sides of the image
  are positive: otherwise \<^verbatim>\<open>new ImageData(width, height)\<close> at line 45 has raised (see
  \<open>loadFramesLoop\<close> below).
\<close>

definition initialState :: "GifReader \<Rightarrow> LoadFramesState" where
  "initialState gifReader =
     \<lparr>canvas = blankImage (GifReader.width gifReader) (GifReader.height gifReader),
      prevFrameInfo = None,
      prevRestorePoint = None,
      scratchData = blankImage (GifReader.width gifReader) (GifReader.height gifReader),
      yielded = [],
      detached = []\<rparr>"

text \<open>
  The \<^verbatim>\<open>switch (prevFrameInfo.disposal)\<close> of lines 51 to 75. \<open>detachedFrames\<close> are the
  indices of the frames whose bitmap is detached: \<^verbatim>\<open>ctx.drawImage\<close> raises on such a
  bitmap before it draws anything.
\<close>

definition disposePrevious ::
  "drawImage \<Rightarrow> GifFrameInfo \<Rightarrow> GifFrameData option \<Rightarrow> nat list \<Rightarrow> ImageData \<Rightarrow> error + ImageData"
where
  "disposePrevious drawImg prev restorePoint detachedFrames cv =
     (if disposal prev = 0 \<or> disposal prev = 1 then Inr cv
      else if disposal prev = 2 then
        Inr (clearRect (x prev) (y prev) (GifFrameInfo.width prev) (GifFrameInfo.height prev) cv)
      else if disposal prev = 3 then
        (case restorePoint of
           None \<Rightarrow> Inl NoRestorePoint
         | Some p \<Rightarrow>
             if GifFrameData.index p \<in> set detachedFrames then Inl InvalidStateError
             else Inr (drawImg (GifFrameData.data p) cv))
      else Inr cv)"

text \<open>Lines 50 to 76: the disposal of the previous frame, when there is one.\<close>

definition prepareCanvas :: "drawImage \<Rightarrow> LoadFramesState \<Rightarrow> error + ImageData" where
  "prepareCanvas drawImg st =
     (case prevFrameInfo st of
        None \<Rightarrow> Inr (canvas st)
      | Some prev \<Rightarrow> disposePrevious drawImg prev (prevRestorePoint st) (detached st) (canvas st))"

text \<open>
  Lines 78 to 104: paint frame \<open>i\<close> on the prepared canvas \<open>cv\<close>, yield the snapshot
  (\<^verbatim>\<open>createImageBitmap\<close> copies the canvas) to the consumer, and update the restore
  point and the previous descriptor.
\<close>

definition paintAndYield ::
  "GifReader \<Rightarrow> consumer \<Rightarrow> nat \<Rightarrow> LoadFramesState \<Rightarrow> ImageData \<Rightarrow> LoadFramesState"
where
  "paintAndYield gifReader consume i st cv =
     (let fi = frameInfo gifReader i;
          painted = decodeAndPaint gifReader i (scratchData st) cv;
          frameData = \<lparr>index = i,
                       delay = GifFrameInfo.delay fi,
                       data = fst (snd painted),
                       isPaletteGlobal = \<not> has_local_palette fi,
                       palette = convertPalette (snd (snd painted))\<rparr>
      in \<lparr>canvas = fst (snd painted),
          prevFrameInfo = Some fi,
          prevRestorePoint =
            (if prevRestorePoint st = None \<or> disposal fi \<noteq> 3 then Some frameData
             else prevRestorePoint st),
          scratchData = fst painted,
          yielded = yielded st @ [frameData],
          detached = (if consume frameData then detached st @ [i] else detached st)\<rparr>)"

text \<open>One iteration of the \<^verbatim>\<open>for\<close> loop.\<close>

definition compositeFrame ::
  "GifReader \<Rightarrow> drawImage \<Rightarrow> consumer \<Rightarrow> nat \<Rightarrow> LoadFramesState \<Rightarrow> error + LoadFramesState"
where
  "compositeFrame gifReader drawImg consume i st =
     (case prepareCanvas drawImg st of
        Inl e \<Rightarrow> Inl e
      | Inr cv \<Rightarrow> Inr (paintAndYield gifReader consume i st cv))"

text \<open>
  The generator up to and including the first \<open>k\<close> iterations of the loop,
  \<open>i = 0, ..., k - 1\<close>. Before the loop, \<^verbatim>\<open>new ImageData(width, height)\<close> raises
  \<^verbatim>\<open>IndexSizeError\<close> when a side is 0. An exception ends the generator: the state, with
  the frames already yielded, stays as it was.
\<close>

primrec loadFramesLoop ::
  "GifReader \<Rightarrow> drawImage \<Rightarrow> consumer \<Rightarrow> nat \<Rightarrow> error option \<times> LoadFramesState"
where
  "loadFramesLoop gifReader drawImg consume 0 =
     (if GifReader.width gifReader = 0 \<or> GifReader.height gifReader = 0
      then (Some IndexSizeError, initialState gifReader)
      else (None, initialState gifReader))"
| "loadFramesLoop gifReader drawImg consume (Suc k) =
     (case loadFramesLoop gifReader drawImg consume k of
        (Some e, st) \<Rightarrow> (Some e, st)
      | (None, st) \<Rightarrow>
          (case compositeFrame gifReader drawImg consume k st of
             Inl e \<Rightarrow> (Some e, st)
           | Inr st' \<Rightarrow> (None, st')))"

text \<open>The frames the generator yields, and the exception that ended it, if any.\<close>

definition loadFrames ::
  "GifReader \<Rightarrow> drawImage \<Rightarrow> consumer \<Rightarrow> GifFrameData list \<times> error option"
where
  "loadFrames gifReader drawImg consume =
     (case loadFramesLoop gifReader drawImg consume (numFrames gifReader) of
        (e, st) \<Rightarrow> (yielded st, e))"

subsection \<open>\<^verbatim>\<open>loadFrames\<close> of \<^verbatim>\<open>src/gif.ts\<close>\<close>

text \<open>
  \<^verbatim>\<open>GifFrameData\<close> of \<^verbatim>\<open>src/gif.ts\<close>: the spread descriptor \<^verbatim>\<open>...frameInfo\<close> with the
  index, the snapshot and one of the two palettes.
\<close>

record GifFrameData_gif = GifFrameInfo +
  index :: nat
  data :: ImageData
  paletteGlobal :: "32 word list option"
  paletteLocal :: "32 word list option"

record LoadFramesState_gif =
  canvas :: ImageData
  prevFrameInfo :: "GifFrameInfo option"
  scratchData :: ImageData
  result :: "GifFrameData_gif list"

definition initialState_gif :: "GifReader \<Rightarrow> LoadFramesState_gif" where
  "initialState_gif gifReader =
     \<lparr>LoadFramesState_gif.canvas = blankImage (GifReader.width gifReader) (GifReader.height gifReader),
      prevFrameInfo = None,
      scratchData = blankImage (GifReader.width gifReader) (GifReader.height gifReader),
      result = []\<rparr>"

text \<open>
  Lines 57 to 83 of \<^verbatim>\<open>src/gif.ts\<close>. Reading \<^verbatim>\<open>.data\<close> of
  \<^verbatim>\<open>restorePoints[restorePoints.length - 1]\<close> raises a \<^verbatim>\<open>TypeError\<close> when the filter
  leaves nothing.
\<close>

definition prepareCanvas_gif :: "drawImage \<Rightarrow> LoadFramesState_gif \<Rightarrow> error + ImageData" where
  "prepareCanvas_gif drawImg st =
     (case LoadFramesState_gif.prevFrameInfo st of
        None \<Rightarrow> Inr (LoadFramesState_gif.canvas st)
      | Some prev \<Rightarrow>
          (if disposal prev = 0 \<or> disposal prev = 1 then Inr (LoadFramesState_gif.canvas st)
           else if disposal prev = 2 then
             Inr (clearRect (x prev) (y prev) (GifFrameInfo.width prev) (GifFrameInfo.height prev)
                    (LoadFramesState_gif.canvas st))
           else if disposal prev = 3 then
             (let restorePoints =
                    filter (\<lambda>frame. GifFrameData_gif.index frame = 0 \<or> disposal frame \<noteq> 3)
                      (result st)
              in if restorePoints = [] then Inl TypeError
                 else Inr (drawImg (GifFrameData_gif.data (last restorePoints))
                             (LoadFramesState_gif.canvas st)))
           else Inr (LoadFramesState_gif.canvas st)))"

text \<open>
  Lines 85 to 109. \<^verbatim>\<open>result[i] = ...\<close> appends: \<^verbatim>\<open>result\<close> holds the \<open>i\<close> frames stored
  by the earlier iterations.
\<close>

definition paintAndStore_gif ::
  "GifReader \<Rightarrow> nat \<Rightarrow> LoadFramesState_gif \<Rightarrow> ImageData \<Rightarrow> LoadFramesState_gif"
where
  "paintAndStore_gif gifReader i st cv =
     (let fi = frameInfo gifReader i;
          painted = decodeAndPaint gifReader i (LoadFramesState_gif.scratchData st) cv;
          frame = \<lparr>x = x fi, y = y fi,
                   width = GifFrameInfo.width fi, height = GifFrameInfo.height fi,
                   has_local_palette = has_local_palette fi,
                   palette_offset = palette_offset fi,
                   palette_size = palette_size fi,
                   data_offset = data_offset fi,
                   data_length = data_length fi,
                   transparent_index = transparent_index fi,
                   interlaced = interlaced fi,
                   delay = GifFrameInfo.delay fi,
                   disposal = disposal fi,
                   index = i,
                   data = fst (snd painted),
                   paletteGlobal =
                     (if has_local_palette fi then None
                      else Some (convertPalette (snd (snd painted)))),
                   paletteLocal =
                     (if has_local_palette fi then Some (convertPalette (snd (snd painted)))
                      else None)\<rparr>
      in \<lparr>LoadFramesState_gif.canvas = fst (snd painted),
          prevFrameInfo = Some fi,
          scratchData = fst painted,
          result = result st @ [frame]\<rparr>)"

definition compositeFrame_gif ::
  "GifReader \<Rightarrow> drawImage \<Rightarrow> nat \<Rightarrow> LoadFramesState_gif \<Rightarrow> error + LoadFramesState_gif"
where
  "compositeFrame_gif gifReader drawImg i st =
     (case prepareCanvas_gif drawImg st of
        Inl e \<Rightarrow> Inl e
      | Inr cv \<Rightarrow> Inr (paintAndStore_gif gifReader i st cv))"

primrec loadFramesLoop_gif ::
  "GifReader \<Rightarrow> drawImage \<Rightarrow> nat \<Rightarrow> error + LoadFramesState_gif"
where
  "loadFramesLoop_gif gifReader drawImg 0 =
     (if GifReader.width gifReader = 0 \<or> GifReader.height gifReader = 0 then Inl IndexSizeError
      else Inr (initialState_gif gifReader))"
| "loadFramesLoop_gif gifReader drawImg (Suc k) =
     (case loadFramesLoop_gif gifReader drawImg k of
        Inl e \<Rightarrow> Inl e
      | Inr st \<Rightarrow> compositeFrame_gif gifReader drawImg k st)"

text \<open>
  The promise resolves with \<^verbatim>\<open>result\<close> or rejects with the exception. The function has
  no consumer before it returns: the bitmaps it draws from \<^verbatim>\<open>result\<close> are attached.
\<close>

definition loadFrames_gif :: "GifReader \<Rightarrow> drawImage \<Rightarrow> error + GifFrameData_gif list" where
  "loadFrames_gif gifReader drawImg =
     (case loadFramesLoop_gif gifReader drawImg (numFrames gifReader) of
        Inl e \<Rightarrow> Inl e
      | Inr st \<Rightarrow> Inr (result st))"

section \<open>Encode assembler (\<^verbatim>\<open>beginFile\<close> of \<^verbatim>\<open>src/gif/utils.ts\<close>)\<close>

text \<open>
  The writer of the codec library, as far as \<^verbatim>\<open>beginFile\<close> uses it: the constructor
  \<^verbatim>\<open>new gif.GifWriter(buffer, width, height, {loop, palette})\<close>, given the length of the
  buffer, and \<^verbatim>\<open>gf.addFrame(x, y, w, h, pixels, {delay, palette})\<close>. Both may throw, which
  is \<open>None\<close>; the state \<open>'w\<close> of the writer is the codec's own.
\<close>

record 'w GifWriter =
  gfNew :: "nat \<Rightarrow> nat \<Rightarrow> nat \<Rightarrow> nat \<Rightarrow> 32 word list option \<Rightarrow> 'w option"
  gfAddFrame ::
    "'w \<Rightarrow> nat \<Rightarrow> nat \<Rightarrow> nat \<Rightarrow> nat \<Rightarrow> 8 word list \<Rightarrow> nat \<Rightarrow> 32 word list option \<Rightarrow> 'w option"

text \<open>
  The variables captured by the three closures that \<^verbatim>\<open>beginFile\<close> returns
  (\<^verbatim>\<open>context\<close> is \<open>context2d\<close> here).
\<close>

record 'w Assembler =
  width :: nat
  height :: nat
  framesRemaining :: int
  context2d :: ImageData
  gf :: 'w

definition beginFile ::
  "'w GifWriter \<Rightarrow> GifMetadata \<Rightarrow> 32 word list option \<Rightarrow> error + 'w Assembler"
where
  "beginFile lib metadata colors =
     (case gfNew lib
             ((GifMetadata.width metadata * GifMetadata.height metadata + 1024) * frameCount metadata)
             (GifMetadata.width metadata) (GifMetadata.height metadata)
             (loopCount metadata) colors of
        None \<Rightarrow> Inl CodecError
      | Some w \<Rightarrow>
          Inr \<lparr>Assembler.width = GifMetadata.width metadata,
               height = GifMetadata.height metadata,
               framesRemaining = int (frameCount metadata),
               context2d = blankImage (GifMetadata.width metadata) (GifMetadata.height metadata),
               gf = w\<rparr>)"

text \<open>
  \<^verbatim>\<open>addFrame\<close>: draw the frame on the context, read the canvas back
  (\<^verbatim>\<open>getImageData(0, 0, width, height)\<close>), index it against the frame's palette and hand
  the indices to the writer; then \<^verbatim>\<open>framesRemaining--\<close>. When the writer throws, the
  context has been drawn on and the counter is untouched.
\<close>

definition addFrame ::
  "'w GifWriter \<Rightarrow> drawImage \<Rightarrow> 'w Assembler \<Rightarrow> GifFrameData \<Rightarrow> error option \<times> 'w Assembler"
where
  "addFrame lib drawImg st frame =
     (let cv = drawImg (GifFrameData.data frame) (context2d st);
          imageData = \<lparr>ImageData.width = Assembler.width st, height = Assembler.height st,
                       data = ImageData.data cv\<rparr>;
          pixels = encodeImage imageData (palette frame)
      in case gfAddFrame lib (gf st) 0 0 (Assembler.width st) (Assembler.height st) pixels
                (GifFrameData.delay frame)
                (if isPaletteGlobal frame then None else Some (palette frame)) of
           None \<Rightarrow> (Some CodecError, st\<lparr>context2d := cv\<rparr>)
         | Some w \<Rightarrow>
             (None, st\<lparr>context2d := cv, gf := w, framesRemaining := framesRemaining st - 1\<rparr>))"

text \<open>\<^verbatim>\<open>done: () => framesRemaining === 0\<close>. (\<open>done\<close> is a keyword of the prover.)\<close>

definition isDone :: "'w Assembler \<Rightarrow> bool" where
  "isDone st \<longleftrightarrow> framesRemaining st = 0"

text \<open>A run of \<^verbatim>\<open>addFrame\<close> calls on one assembler, up to the first call that throws.\<close>

fun addFrameCalls ::
  "'w GifWriter \<Rightarrow> drawImage \<Rightarrow> 'w Assembler \<Rightarrow> GifFrameData list \<Rightarrow> error option \<times> 'w Assembler"
where
  "addFrameCalls lib drawImg st [] = (None, st)"
| "addFrameCalls lib drawImg st (frame # rest) =
     (case addFrame lib drawImg st frame of
        (Some e, st') \<Rightarrow> (Some e, st')
      | (None, st') \<Rightarrow> addFrameCalls lib drawImg st' rest)"

section \<open>Example inputs\<close>

definition exampleFrame :: "nat \<Rightarrow> nat \<Rightarrow> GifFrameData" where
  "exampleFrame i d =
     \<lparr>GifFrameData.index = i, delay = d, data = \<lparr>ImageData.width = 1, height = 1, data = [0, 0, 0, 0]\<rparr>,
      isPaletteGlobal = True, palette = [0]\<rparr>"

definition exampleMetadata :: GifMetadata where
  "exampleMetadata = \<lparr>GifMetadata.width = 1, height = 1, frameCount = 3, loopCount = 0\<rparr>"

definition exampleFrames :: "GifFrameData list" where
  "exampleFrames = [exampleFrame 0 10, exampleFrame 1 20, exampleFrame 2 5]"

definition kept :: FrameState where "kept = \<lparr>deleted = None\<rparr>"
definition dropped :: FrameState where "dropped = \<lparr>deleted = Some True\<rparr>"

definition exampleWriter :: "nat list GifWriter" where
  "exampleWriter =
     \<lparr>gfNew = (\<lambda>len w h loop colors. Some []),
      gfAddFrame = (\<lambda>written fx fy w h pixels d colors. Some (written @ [d]))\<rparr>"

definition exampleDraw :: drawImage where
  "exampleDraw bitmap cv = bitmap"

text \<open>
  A reader for a canvas of two pixels in one row. Frame 0 covers both pixels, frame 1
  the right pixel, every later frame the left pixel; the decoder fills the scratch
  buffer with the opaque colour \<open>(i + 1, 0, 0)\<close> for frame \<open>i\<close>. The disposal methods are
  given as a list. \<open>exampleDraw\<close> draws an opaque bitmap: it replaces the canvas.
\<close>

definition exampleInfo :: "nat \<Rightarrow> nat \<Rightarrow> nat \<Rightarrow> GifFrameInfo" where
  "exampleInfo rx rw d =
     \<lparr>x = rx, y = 0, width = rw, height = 1, has_local_palette = False, palette_offset = 0,
      palette_size = 1, data_offset = 0, data_length = 0, transparent_index = None,
      interlaced = False, delay = 10, disposal = d\<rparr>"

definition exampleReader :: "nat list \<Rightarrow> GifReader" where
  "exampleReader disposals =
     \<lparr>GifReader.width = 2, height = 1, numFrames = length disposals,
      frameInfo =
        (\<lambda>i. exampleInfo (if i = 1 then 1 else 0) (if i = 0 then 2 else 1)
               (if i < length disposals then disposals ! i else 0)),
      decodeAndBlitFrameRGBA =
        (\<lambda>i pixels bytes. ([of_nat (Suc i), 0, 0, 255, of_nat (Suc i), 0, 0, 255], bytes))\<rparr>"

definition exampleCanvas :: "8 word list \<Rightarrow> ImageData" where
  "exampleCanvas bytes = \<lparr>ImageData.width = 2, height = 1, data = bytes\<rparr>"

definition exampleYield :: "nat \<Rightarrow> 8 word list \<Rightarrow> GifFrameData" where
  "exampleYield i bytes =
     \<lparr>GifFrameData.index = i, delay = 10, data = exampleCanvas bytes, isPaletteGlobal = True,
      palette = [0]\<rparr>"

text \<open>
  The states of the generator on the example reader with disposals 0, 2, 3, 0, consumed by
  the reader worker, after frames 0, 1 and 2, and the frames yielded up to there.
\<close>

definition exampleState ::
  "8 word list \<Rightarrow> GifFrameInfo \<Rightarrow> GifFrameData \<Rightarrow> 8 word list \<Rightarrow> GifFrameData list \<Rightarrow> nat list \<Rightarrow>
   LoadFramesState"
where
  "exampleState cv prev restorePoint scratch ys transferred =
     \<lparr>LoadFramesState.canvas = exampleCanvas cv, prevFrameInfo = Some prev,
      prevRestorePoint = Some restorePoint, scratchData = exampleCanvas scratch, yielded = ys,
      detached = transferred\<rparr>"

definition exampleYields :: "GifFrameData list" where
  "exampleYields =
     [exampleYield 0 [1, 0, 0, 255, 1, 0, 0, 255],
      exampleYield 1 [1, 0, 0, 255, 2, 0, 0, 255],
      exampleYield 2 [3, 0, 0, 255, 0, 0, 0, 0]]"

definition exampleAfter :: "nat \<Rightarrow> LoadFramesState" where
  "exampleAfter k =
     (if k = 0 then
        exampleState [1, 0, 0, 255, 1, 0, 0, 255] (exampleInfo 0 2 0) (exampleYields ! 0)
          [1, 0, 0, 255, 1, 0, 0, 255] (take 1 exampleYields) [0]
      else if k = 1 then
        exampleState [1, 0, 0, 255, 2, 0, 0, 255] (exampleInfo 1 1 2) (exampleYields ! 1)
          [2, 0, 0, 255, 2, 0, 0, 255] (take 2 exampleYields) [0, 1]
      else
        exampleState [3, 0, 0, 255, 0, 0, 0, 0] (exampleInfo 0 1 3) (exampleYields ! 1)
          [3, 0, 0, 255, 3, 0, 0, 255] exampleYields [0, 1, 2])"

text \<open>A frame of \<^verbatim>\<open>src/gif.ts\<close> on the example reader, and the state of its loop.\<close>

definition exampleFrame_gif :: "nat \<Rightarrow> nat \<Rightarrow> nat \<Rightarrow> nat \<Rightarrow> 8 word list \<Rightarrow> GifFrameData_gif" where
  "exampleFrame_gif i rx rw d bytes =
     \<lparr>x = rx, y = 0, width = rw, height = 1, has_local_palette = False, palette_offset = 0,
      palette_size = 1, data_offset = 0, data_length = 0, transparent_index = None,
      interlaced = False, delay = 10, disposal = d,
      index = i, data = exampleCanvas bytes, paletteGlobal = Some [0], paletteLocal = None\<rparr>"

definition exampleFrames_gif :: "GifFrameData_gif list" where
  "exampleFrames_gif =
     [exampleFrame_gif 0 0 2 0 [1, 0, 0, 255, 1, 0, 0, 255],
      exampleFrame_gif 1 1 1 2 [1, 0, 0, 255, 2, 0, 0, 255],
      exampleFrame_gif 2 0 1 3 [3, 0, 0, 255, 0, 0, 0, 0],
      exampleFrame_gif 3 0 1 0 [4, 0, 0, 255, 2, 0, 0, 255]]"

definition exampleState_gif ::
  "8 word list \<Rightarrow> GifFrameInfo \<Rightarrow> 8 word list \<Rightarrow> GifFrameData_gif list \<Rightarrow> LoadFramesState_gif"
where
  "exampleState_gif cv prev scratch frames =
     \<lparr>LoadFramesState_gif.canvas = exampleCanvas cv, prevFrameInfo = Some prev,
      scratchData = exampleCanvas scratch, result = frames\<rparr>"

definition exampleAfter_gif :: "nat \<Rightarrow> LoadFramesState_gif" where
  "exampleAfter_gif k =
     (if k = 0 then
        exampleState_gif [1, 0, 0, 255, 1, 0, 0, 255] (exampleInfo 0 2 0)
          [1, 0, 0, 255, 1, 0, 0, 255] (take 1 exampleFrames_gif)
      else if k = 1 then
        exampleState_gif [1, 0, 0, 255, 2, 0, 0, 255] (exampleInfo 1 1 2)
          [2, 0, 0, 255, 2, 0, 0, 255] (take 2 exampleFrames_gif)
      else if k = 2 then
        exampleState_gif [3, 0, 0, 255, 0, 0, 0, 0] (exampleInfo 0 1 3)
          [3, 0, 0, 255, 3, 0, 0, 255] (take 3 exampleFrames_gif)
      else
        exampleState_gif [4, 0, 0, 255, 2, 0, 0, 255] (exampleInfo 0 1 0)
          [4, 0, 0, 255, 4, 0, 0, 255] exampleFrames_gif)"

definition examplePixel :: "8 word list \<Rightarrow> ImageData" where
  "examplePixel bytes = \<lparr>ImageData.width = 1, height = 1, data = bytes\<rparr>"

definition exampleAssembler :: "int \<Rightarrow> ImageData \<Rightarrow> nat list \<Rightarrow> nat list Assembler" where
  "exampleAssembler n cv written =
     \<lparr>Assembler.width = 1, height = 1, framesRemaining = n, context2d = cv, gf = written\<rparr>"

section \<open>Properties of the frame edit model\<close>

lemma survivors_Suc:
  "survivors st (Suc n) = survivors st n @ (if deleted (st ! n) \<noteq> Some True then [n] else [])"
  by (simp add: survivors_def)

lemma survivors_lt: "k < length (survivors st n) \<Longrightarrow> survivors st n ! k < n"
proof -
  assume "k < length (survivors st n)"
  then have "survivors st n ! k \<in> set (survivors st n)" by simp
  then show ?thesis by (simp add: survivors_def)
qed

lemma mergedPrefix_keep:
  assumes inv: "mergedPrefix frames st n acc" and kept: "deleted (st ! n) \<noteq> Some True"
  shows "mergedPrefix frames st (Suc n) (acc @ [frames ! n])"
proof -
  let ?s = "survivors st n"
  have s': "survivors st (Suc n) = ?s @ [n]" using kept by (simp add: survivors_Suc)
  have len: "length acc = length ?s" using inv by (simp add: mergedPrefix_def)
  show ?thesis
    unfolding mergedPrefix_def s'
  proof (intro conjI allI impI)
    show "length (acc @ [frames ! n]) = length (?s @ [n])" using len by simp
  next
    fix k assume k: "k < length (?s @ [n])"
    show "(acc @ [frames ! n]) ! k = (frames ! ((?s @ [n]) ! k))\<lparr>GifFrameData.delay :=
          (\<Sum>j = (?s @ [n]) ! k ..< (if Suc k < length (?s @ [n]) then (?s @ [n]) ! Suc k else Suc n).
             GifFrameData.delay (frames ! j))\<rparr>"
    proof (cases "k < length ?s")
      case True
      then have old: "acc ! k = (frames ! (?s ! k))\<lparr>GifFrameData.delay :=
          (\<Sum>j = ?s ! k ..< (if Suc k < length ?s then ?s ! Suc k else n).
             GifFrameData.delay (frames ! j))\<rparr>"
        using inv by (simp add: mergedPrefix_def)
      show ?thesis
      proof (cases "Suc k < length ?s")
        case True
        with \<open>k < length ?s\<close> old len show ?thesis by (simp add: nth_append)
      next
        case False
        with \<open>k < length ?s\<close> have "Suc k = length ?s" by simp
        with \<open>k < length ?s\<close> old len show ?thesis by (simp add: nth_append)
      qed
    next
      case False
      with k have "k = length ?s" by simp
      with len show ?thesis by (simp add: nth_append)
    qed
  qed
qed

lemma mergedPrefix_drop:
  assumes inv: "mergedPrefix frames st n acc" and del: "deleted (st ! n) = Some True"
    and ne: "acc \<noteq> []"
  shows "mergedPrefix frames st (Suc n)
           (butlast acc @ [(last acc)\<lparr>GifFrameData.delay :=
               GifFrameData.delay (last acc) + GifFrameData.delay (frames ! n)\<rparr>])"
proof -
  let ?s = "survivors st n"
  have s': "survivors st (Suc n) = ?s" using del by (simp add: survivors_Suc)
  have len: "length acc = length ?s" using inv by (simp add: mergedPrefix_def)
  show ?thesis
    unfolding mergedPrefix_def s'
  proof (intro conjI allI impI)
    show "length (butlast acc @ [(last acc)\<lparr>GifFrameData.delay :=
               GifFrameData.delay (last acc) + GifFrameData.delay (frames ! n)\<rparr>]) = length ?s"
      using len ne by (cases acc rule: rev_cases) auto
  next
    fix k assume k: "k < length ?s"
    then have old: "acc ! k = (frames ! (?s ! k))\<lparr>GifFrameData.delay :=
          (\<Sum>j = ?s ! k ..< (if Suc k < length ?s then ?s ! Suc k else n).
             GifFrameData.delay (frames ! j))\<rparr>"
      using inv by (simp add: mergedPrefix_def)
    show "(butlast acc @ [(last acc)\<lparr>GifFrameData.delay :=
               GifFrameData.delay (last acc) + GifFrameData.delay (frames ! n)\<rparr>]) ! k =
          (frames ! (?s ! k))\<lparr>GifFrameData.delay :=
          (\<Sum>j = ?s ! k ..< (if Suc k < length ?s then ?s ! Suc k else Suc n).
             GifFrameData.delay (frames ! j))\<rparr>"
    proof (cases "Suc k < length ?s")
      case True
      then have "k < length (butlast acc)" using len by simp
      then show ?thesis using True old by (simp add: nth_append nth_butlast)
    next
      case False
      with k have kl: "length ?s = Suc k" by simp
      then have lastk: "last acc = acc ! k" using len ne by (simp add: last_conv_nth)
      have le: "?s ! k \<le> n" using survivors_lt[OF k] by simp
      have "k = length (butlast acc)" using kl len by simp
      then show ?thesis using kl old lastk le by (simp add: nth_append)
    qed
  qed
qed

lemma downloadLoop_mergedPrefix:
  assumes "frames = pre @ rest" and "length frames \<le> length st"
    and "mergedPrefix frames st (length pre) acc"
    and "frames \<noteq> [] \<longrightarrow> deleted (st ! 0) \<noteq> Some True"
  shows "\<exists>out. downloadLoop rest st (length pre) acc = Inr out \<and>
               mergedPrefix frames st (length frames) out"
  using assms
proof (induction rest arbitrary: pre acc)
  case Nil
  then show ?case by simp
next
  case (Cons f rest)
  have fn: "frames ! length pre = f" using Cons.prems(1) by simp
  have split: "frames = (pre @ [f]) @ rest" using Cons.prems(1) by simp
  have inr: "length pre < length st" using Cons.prems(1,2) by simp
  show ?case
  proof (cases "deleted (st ! length pre) = Some True")
    case True
    have "pre \<noteq> []" using True Cons.prems(1,4) by (cases pre) auto
    then have "0 < length pre" by simp
    then have "survivors st (length pre) \<noteq> []"
      using Cons.prems(1,4) by (auto simp: survivors_def filter_empty_conv)
    then have ne: "acc \<noteq> []" using Cons.prems(3) by (auto simp: mergedPrefix_def)
    have "mergedPrefix frames st (length (pre @ [f]))
            (butlast acc @ [(last acc)\<lparr>GifFrameData.delay :=
               GifFrameData.delay (last acc) + GifFrameData.delay f\<rparr>])"
      using mergedPrefix_drop[OF Cons.prems(3) True ne] fn by simp
    from Cons.IH[OF split Cons.prems(2) this Cons.prems(4)] True ne inr
    show ?thesis by simp
  next
    case False
    have "mergedPrefix frames st (length (pre @ [f])) (acc @ [f])"
      using mergedPrefix_keep[OF Cons.prems(3) False] fn by simp
    from Cons.IH[OF split Cons.prems(2) this Cons.prems(4)] False inr
    show ?thesis by simp
  qed
qed

lemma mergedPrefix_0: "mergedPrefix frames st 0 []"
  by (simp add: mergedPrefix_def survivors_def)

text \<open>
  Claim C2, as the code has it. When \<^verbatim>\<open>frameStates\<close> covers the frames and frame 0 is not
  deleted, \<^verbatim>\<open>download\<close> calls \<^verbatim>\<open>writeGifToFile\<close> with exactly the surviving frames in
  index order, and with \<^verbatim>\<open>frameCount\<close> set to their number. The delay of each survivor
  is the sum of the delays from its own index up to (not including) the index of the
  next survivor, or up to the end for the last one: its own delay plus the delays of the
  deleted frames that immediately follow it. Every other field of the frame is kept.
\<close>

theorem download_merges_following_deleted:
  assumes "length frames \<le> length frameStates"
    and "frames \<noteq> [] \<longrightarrow> deleted (frameStates ! 0) \<noteq> Some True"
  shows "\<exists>out. download metadata frames frameStates = Inr (metadata\<lparr>frameCount := length out\<rparr>, out) \<and>
           length out = length (survivors frameStates (length frames)) \<and>
           (\<forall>k<length out.
              out ! k = (frames ! (survivors frameStates (length frames) ! k))\<lparr>GifFrameData.delay :=
                (\<Sum>j = survivors frameStates (length frames) ! k ..<
                       (if Suc k < length out then survivors frameStates (length frames) ! Suc k
                        else length frames).
                   GifFrameData.delay (frames ! j))\<rparr>)"
proof -
  have "frames = [] @ frames" by simp
  from downloadLoop_mergedPrefix[OF this assms(1) _ assms(2), of "[]"] mergedPrefix_0
  obtain out where "downloadLoop frames frameStates 0 [] = Inr out"
    and "mergedPrefix frames frameStates (length frames) out" by auto
  then show ?thesis by (auto simp: download_def mergedPrefix_def)
qed

text \<open>
  Claim C2 at the example of the specification: delays 10, 20, 5 with frame 1 deleted
  give the delays 30 and 5.
\<close>

theorem download_merges_following_deleted_witness:
  "length exampleFrames \<le> length [kept, dropped, kept] \<and>
   deleted ([kept, dropped, kept] ! 0) \<noteq> Some True \<and>
   (\<exists>out. download exampleMetadata exampleFrames [kept, dropped, kept] =
            Inr (exampleMetadata\<lparr>frameCount := length out\<rparr>, out) \<and>
          length out = 2 \<and> map GifFrameData.delay out = [30, 5])"
proof -
  have h1: "length exampleFrames \<le> length [kept, dropped, kept]"
    by (simp add: exampleFrames_def)
  have h2: "exampleFrames \<noteq> [] \<longrightarrow> deleted ([kept, dropped, kept] ! 0) \<noteq> Some True"
    by (simp add: kept_def)
  from download_merges_following_deleted[OF h1 h2, of exampleMetadata]
  obtain out where d: "download exampleMetadata exampleFrames [kept, dropped, kept] =
            Inr (exampleMetadata\<lparr>frameCount := length out\<rparr>, out)" by blast
  have "download exampleMetadata exampleFrames [kept, dropped, kept] =
     Inr (exampleMetadata\<lparr>frameCount := 2\<rparr>, [exampleFrame 0 30, exampleFrame 2 5])"
    by (simp add: download_def exampleFrames_def kept_def dropped_def exampleFrame_def)
  with d have "out = [exampleFrame 0 30, exampleFrame 2 5]" by simp
  with d h1 show ?thesis by (simp add: exampleFrame_def kept_def)
qed

text \<open>
  Claim C2 as stated lets a survivor absorb the deleted frames that precede it. On the
  delays 10, 20, 5 with frame 1 deleted that rule (the accumulator of the specification)
  gives 10 and 25, while \<^verbatim>\<open>download\<close> produces 30 and 5: frame 0, which no deleted frame
  precedes, leaves with delay 30, and frame 2, which follows the deleted frame, keeps its
  own delay 5.
\<close>

theorem download_preceding_rule_counterexample:
  "map GifFrameData.delay exampleFrames = [10, 20, 5] \<and>
   download exampleMetadata exampleFrames [kept, dropped, kept] =
     Inr (exampleMetadata\<lparr>frameCount := 2\<rparr>, [exampleFrame 0 30, exampleFrame 2 5]) \<and>
   spec_buildEncodeSequence
     (zip (map GifFrameData.delay exampleFrames)
          (map (\<lambda>s. deleted s = Some True) [kept, dropped, kept])) 0 = [10, 25]"
  by (simp add: download_def exampleFrames_def kept_def dropped_def exampleFrame_def)

text \<open>
  Claim C6 says that an export in which every frame is deleted fails with an
  \<^verbatim>\<open>EmptySequence\<close> error reported to the caller. With three frames, all deleted,
  \<^verbatim>\<open>download\<close> raises a \<^verbatim>\<open>TypeError\<close> at frame 0 instead: the loop reads the delay of the
  last survivor when there is none. Nothing tests whether any frame survives: the same
  exception is raised when only frame 0 is deleted and frames 1 and 2 survive.
\<close>

theorem download_all_deleted_type_error:
  "length exampleFrames = frameCount exampleMetadata \<and>
   download exampleMetadata exampleFrames [dropped, dropped, dropped] = Inl TypeError \<and>
   download exampleMetadata exampleFrames [dropped, kept, kept] = Inl TypeError"
  by (simp add: download_def exampleFrames_def exampleMetadata_def dropped_def)

text \<open>
  Claim C7 says that leading deleted frames are dropped and that the first survivor
  keeps its own delay. With frames of delays 10 and 20 and only frame 0 deleted,
  \<^verbatim>\<open>download\<close> raises a \<^verbatim>\<open>TypeError\<close> at frame 0 instead, and nothing is exported.
\<close>

theorem download_leading_deleted_raises:
  "download exampleMetadata [exampleFrame 0 10, exampleFrame 1 20] [dropped, kept] = Inl TypeError"
  by (simp add: download_def dropped_def)

text \<open>
  Claim C8 says that marking a frame at an out-of-range index is a silent no-op. Before
  the metadata of a file has arrived the edit state is empty and the selected frame is
  0, which is out of range: both updaters raise a \<^verbatim>\<open>TypeError\<close> there. The same happens
  on a one-frame state with index 1.
\<close>

theorem toggle_out_of_range_type_error:
  "onArrowDown initialFrameStates initialSelectedFrame = Inl TypeError \<and>
   onArrowUp initialFrameStates initialSelectedFrame = Inl TypeError \<and>
   onArrowDown [kept] 1 = Inl TypeError \<and> onArrowUp [kept] 1 = Inl TypeError"
  by (simp add: onArrowDown_def onArrowUp_def initialFrameStates_def initialSelectedFrame_def)

section \<open>Properties of the palette indexing\<close>

lemma indexColors_absent:
  "\<forall>j<length pal. unat (pal ! j) \<noteq> c \<Longrightarrow> indexColors pal i m c = m c"
proof (induction pal arbitrary: i m)
  case Nil
  then show ?case by simp
next
  case (Cons p pal)
  from Cons.prems have "unat p \<noteq> c" by (metis length_greater_0_conv list.distinct(1) nth_Cons_0)
  moreover from Cons.prems have "\<forall>j<length pal. unat (pal ! j) \<noteq> c" by fastforce
  ultimately show ?case using Cons.IH by simp
qed

lemma indexColors_last:
  "j < length pal \<Longrightarrow> unat (pal ! j) = c \<Longrightarrow>
   \<forall>j'. j < j' \<and> j' < length pal \<longrightarrow> unat (pal ! j') \<noteq> c \<Longrightarrow>
   indexColors pal i m c = Some (i + j)"
proof (induction pal arbitrary: i m j)
  case Nil
  then show ?case by simp
next
  case (Cons p pal)
  show ?case
  proof (cases j)
    case 0
    with Cons.prems have "\<forall>j'<length pal. unat (pal ! j') \<noteq> c" by fastforce
    from indexColors_absent[OF this] 0 Cons.prems(2) show ?thesis by simp
  next
    case (Suc j0)
    with Cons.prems have a: "j0 < length pal" and b: "unat (pal ! j0) = c" by simp_all
    have "\<forall>j'. j0 < j' \<and> j' < length pal \<longrightarrow> unat (pal ! j') \<noteq> c"
    proof (intro allI impI)
      fix j' assume "j0 < j' \<and> j' < length pal"
      then have "j < Suc j' \<and> Suc j' < length (p # pal)" using Suc by simp
      with Cons.prems(3) have "unat ((p # pal) ! Suc j') \<noteq> c" by blast
      then show "unat (pal ! j') \<noteq> c" by simp
    qed
    from Cons.IH[OF a b this] Suc show ?thesis by simp
  qed
qed

text \<open>
  Claim C3, as the code has it. \<^verbatim>\<open>encodeImage\<close> has no failure: it always returns one
  index per pixel. For a pixel whose packed colour is \<open>color\<close>: when no palette entry
  equals \<open>color\<close> the index stored is 0; when \<open>j\<close> is the last palette position holding
  \<open>color\<close> the index stored is \<open>j\<close> (reduced modulo 256 by the byte array), so for a
  palette of at most 256 entries the index points at an entry of identical value.
\<close>

theorem encodeImage_exact_or_zero:
  assumes "i < ImageData.width img * ImageData.height img"
    and "pixelColor img i = Some color"
  shows "length (encodeImage img colors) = ImageData.width img * ImageData.height img \<and>
         ((\<forall>j<length colors. unat (colors ! j) \<noteq> color) \<longrightarrow> encodeImage img colors ! i = 0) \<and>
         (\<forall>j. j < length colors \<and> unat (colors ! j) = color \<and>
               (\<forall>j'. j < j' \<and> j' < length colors \<longrightarrow> unat (colors ! j') \<noteq> color) \<longrightarrow>
               encodeImage img colors ! i = of_nat j \<and>
               (length colors \<le> 256 \<longrightarrow> colors ! unat (encodeImage img colors ! i) = colors ! j))"
proof (intro conjI allI impI)
  show "length (encodeImage img colors) = ImageData.width img * ImageData.height img"
    by (simp add: encodeImage_def)
next
  assume "\<forall>j<length colors. unat (colors ! j) \<noteq> color"
  from indexColors_absent[OF this] assms show "encodeImage img colors ! i = 0"
    by (simp add: encodeImage_def storeUint8_def)
next
  fix j
  assume h: "j < length colors \<and> unat (colors ! j) = color \<and>
               (\<forall>j'. j < j' \<and> j' < length colors \<longrightarrow> unat (colors ! j') \<noteq> color)"
  then have "indexColors colors 0 Map.empty color = Some (0 + j)"
    using indexColors_last by blast
  with assms show e: "encodeImage img colors ! i = of_nat j"
    by (simp add: encodeImage_def storeUint8_def)
  assume "length colors \<le> 256"
  with h have "j < 256" by simp
  then have "unat (of_nat j :: 8 word) = j" by (simp add: unat_of_nat)
  with e show "colors ! unat (encodeImage img colors ! i) = colors ! j" by simp
qed

text \<open>
  Claim C3 at a white pixel and the palette black, white: the index is 1, the position of
  white.
\<close>

theorem encodeImage_exact_or_zero_witness:
  "0 < ImageData.width (examplePixel [255, 255, 255, 255]) * ImageData.height (examplePixel [255, 255, 255, 255]) \<and>
   pixelColor (examplePixel [255, 255, 255, 255]) 0 = Some 16777215 \<and>
   length (encodeImage (examplePixel [255, 255, 255, 255]) [0, 16777215]) = 1 \<and>
   encodeImage (examplePixel [255, 255, 255, 255]) [0, 16777215] ! 0 = 1 \<and>
   [0, 16777215] ! unat (encodeImage (examplePixel [255, 255, 255, 255]) [0, 16777215] ! 0) =
     (16777215 :: 32 word)"
proof -
  let ?img = "examplePixel [255, 255, 255, 255]"
  let ?pal = "[0, 16777215] :: 32 word list"
  have h1: "0 < ImageData.width ?img * ImageData.height ?img" by (simp add: examplePixel_def)
  have h2: "pixelColor ?img 0 = Some 16777215"
    by (simp add: pixelColor_def byteAt_def shiftLeft_def examplePixel_def)
  have j: "1 < length ?pal \<and> unat (?pal ! 1) = 16777215 \<and>
           (\<forall>j'. 1 < j' \<and> j' < length ?pal \<longrightarrow> unat (?pal ! j') \<noteq> 16777215)"
    by simp
  from encodeImage_exact_or_zero[OF h1 h2, of ?pal] j
  have "length (encodeImage ?img ?pal) = ImageData.width ?img * ImageData.height ?img"
    and "encodeImage ?img ?pal ! 0 = of_nat 1"
    and "length ?pal \<le> 256 \<longrightarrow> ?pal ! unat (encodeImage ?img ?pal ! 0) = ?pal ! 1"
    by blast+
  with h1 h2 show ?thesis by (simp add: examplePixel_def)
qed

text \<open>
  Claim C3 as stated makes the encoding fail when a colour is missing from the palette.
  The pixel (1, 2, 3) packs to 66051, which is neither entry of the palette black,
  white; \<^verbatim>\<open>encodeImage\<close> returns the index stream \<open>[0]\<close>.
\<close>

theorem encodeImage_missing_color_counterexample:
  "pixelColor (examplePixel [1, 2, 3, 255]) 0 = Some 66051 \<and>
   map unat [0, 16777215 :: 32 word] = [0, 16777215] \<and>
   encodeImage (examplePixel [1, 2, 3, 255]) [0, 16777215] = [0]"
  by (simp add: encodeImage_def pixelColor_def byteAt_def shiftLeft_def storeUint8_def examplePixel_def)

section \<open>Properties of the disposal compositor\<close>

lemma paintAndYield_fields:
  "LoadFramesState.prevFrameInfo (paintAndYield r c k st cv) = Some (frameInfo r k)"
  "LoadFramesState.prevRestorePoint (paintAndYield r c k st cv) \<noteq> None"
  "length (yielded (paintAndYield r c k st cv)) = Suc (length (yielded st))"
  by (simp_all add: paintAndYield_def Let_def)

lemma prepareCanvas_error:
  "prepareCanvas dI st = Inl e \<Longrightarrow>
   LoadFramesState.prevFrameInfo st = None \<or> LoadFramesState.prevRestorePoint st \<noteq> None \<Longrightarrow>
   e = InvalidStateError"
  by (auto simp: prepareCanvas_def disposePrevious_def split: option.splits if_splits)

lemma loadFramesLoop_invariant:
  "loadFramesLoop r dI c k = (None, st) \<Longrightarrow>
   length (yielded st) = k \<and>
   (LoadFramesState.prevRestorePoint st = None \<longleftrightarrow> k = 0) \<and>
   LoadFramesState.prevFrameInfo st = (if k = 0 then None else Some (frameInfo r (k - 1)))"
proof (induction k arbitrary: st)
  case 0
  then show ?case by (auto simp: initialState_def split: if_splits)
next
  case (Suc k)
  obtain e0 st0 where l: "loadFramesLoop r dI c k = (e0, st0)"
    by (cases "loadFramesLoop r dI c k")
  with Suc.prems have e0: "e0 = None" by (cases e0) auto
  from Suc.IH[OF l[unfolded e0]] have len: "length (yielded st0) = k" by simp
  from Suc.prems l e0 obtain cv where "st = paintAndYield r c k st0 cv"
    by (auto simp: compositeFrame_def split: sum.splits)
  with len show ?case by (simp add: paintAndYield_fields)
qed

lemma loadFramesLoop_errors:
  "fst (loadFramesLoop r dI c k) \<in> {None, Some IndexSizeError, Some InvalidStateError}"
proof (induction k)
  case 0
  show ?case by simp
next
  case (Suc k)
  obtain e0 st0 where l: "loadFramesLoop r dI c k = (e0, st0)"
    by (cases "loadFramesLoop r dI c k")
  show ?case
  proof (cases e0)
    case (Some e)
    with l Suc show ?thesis by simp
  next
    case None
    from loadFramesLoop_invariant[OF l[unfolded None]]
    have ok: "LoadFramesState.prevFrameInfo st0 = None \<or> LoadFramesState.prevRestorePoint st0 \<noteq> None"
      by (cases "k = 0") auto
    show ?thesis
    proof (cases "prepareCanvas dI st0")
      case (Inl e)
      from prepareCanvas_error[OF Inl ok] Inl l None show ?thesis
        by (simp add: compositeFrame_def)
    next
      case (Inr cv)
      with l None show ?thesis by (simp add: compositeFrame_def)
    qed
  qed
qed

text \<open>
  Claim C5, as the code has it. The guard exists: with disposal 3 on the previous frame
  and no restore point, the disposal step raises \<^verbatim>\<open>NoRestorePoint\<close>. But frame 0 always
  becomes the restore point, whatever its disposal, so no run of the generator reaches
  the guard: for every reader, drawing operation and consumer, the exception that ends
  the loop or \<^verbatim>\<open>loadFrames\<close>, if any, is not \<^verbatim>\<open>NoRestorePoint\<close>, and after any frame that
  was composited a restore point exists.
\<close>

theorem restore_point_guard_unreachable:
  "disposePrevious dI (prev\<lparr>disposal := 3\<rparr>) None detachedFrames cv = Inl NoRestorePoint \<and>
   fst (loadFramesLoop r dI c k) \<noteq> Some NoRestorePoint \<and>
   snd (loadFrames r dI c) \<noteq> Some NoRestorePoint \<and>
   (case loadFramesLoop r dI c (Suc k) of
      (None, st) \<Rightarrow> LoadFramesState.prevRestorePoint st \<noteq> None
    | (Some e, st) \<Rightarrow> e \<noteq> NoRestorePoint)"
proof (intro conjI)
  show "disposePrevious dI (prev\<lparr>disposal := 3\<rparr>) None detachedFrames cv = Inl NoRestorePoint"
    by (simp add: disposePrevious_def)
next
  from loadFramesLoop_errors[of r dI c k]
  show "fst (loadFramesLoop r dI c k) \<noteq> Some NoRestorePoint" by auto
next
  from loadFramesLoop_errors[of r dI c "numFrames r"]
  show "snd (loadFrames r dI c) \<noteq> Some NoRestorePoint"
    by (auto simp: loadFrames_def split: prod.splits)
next
  obtain e st where l: "loadFramesLoop r dI c (Suc k) = (e, st)"
    by (cases "loadFramesLoop r dI c (Suc k)")
  show "case loadFramesLoop r dI c (Suc k) of
      (None, st) \<Rightarrow> LoadFramesState.prevRestorePoint st \<noteq> None
    | (Some e, st) \<Rightarrow> e \<noteq> NoRestorePoint"
  proof (cases e)
    case None
    from loadFramesLoop_invariant[OF l[unfolded None]] l None show ?thesis by simp
  next
    case (Some e')
    from loadFramesLoop_errors[of r dI c "Suc k"] l Some show ?thesis by auto
  qed
qed




lemmas example_defs = compositeFrame_def prepareCanvas_def disposePrevious_def paintAndYield_def
  decodeAndPaint_def putImageData_def clearRect_def Let_def convertPalette_def
  exampleReader_def exampleInfo_def exampleCanvas_def exampleYield_def
  exampleState_def exampleYields_def exampleAfter_def readerWorker_def keepsBitmaps_def

text \<open>
  The example reader with disposals 0, 2, 3, 0, consumed by the reader worker, evaluated
  frame by frame. Nothing is drawn from a bitmap before frame 3, so the drawing
  operation is arbitrary.
\<close>

lemma example_frame0:
  "compositeFrame (exampleReader [0, 2, 3, 0]) dI readerWorker 0 (initialState (exampleReader [0, 2, 3, 0])) =
   Inr (exampleAfter 0)"
  by (simp add: example_defs initialState_def blankImage_def upt_rec)

lemma example_frame1:
  "compositeFrame (exampleReader [0, 2, 3, 0]) dI readerWorker (Suc 0) (exampleAfter 0) =
   Inr (exampleAfter (Suc 0))"
  by (simp add: example_defs upt_rec)

lemma example_frame2:
  "compositeFrame (exampleReader [0, 2, 3, 0]) dI readerWorker (Suc (Suc 0)) (exampleAfter (Suc 0)) =
   Inr (exampleAfter 2)"
  by (simp add: example_defs upt_rec)

lemma example_frame3:
  "compositeFrame (exampleReader [0, 2, 3, 0]) dI readerWorker (Suc (Suc (Suc 0))) (exampleAfter 2) =
   Inl InvalidStateError"
  by (simp add: example_defs)

lemma example_start:
  "loadFramesLoop (exampleReader ds) dI consume 0 = (None, initialState (exampleReader ds))"
  by (simp add: exampleReader_def)

lemma example_loop:
  "loadFramesLoop (exampleReader [0, 2, 3, 0]) dI readerWorker (Suc 0) = (None, exampleAfter 0)"
  "loadFramesLoop (exampleReader [0, 2, 3, 0]) dI readerWorker (Suc (Suc 0)) = (None, exampleAfter (Suc 0))"
  "loadFramesLoop (exampleReader [0, 2, 3, 0]) dI readerWorker (Suc (Suc (Suc 0))) = (None, exampleAfter 2)"
  "loadFramesLoop (exampleReader [0, 2, 3, 0]) dI readerWorker (Suc (Suc (Suc (Suc 0)))) =
     (Some InvalidStateError, exampleAfter 2)"
  by (simp_all add: example_start example_frame0 example_frame1 example_frame2 example_frame3
      del: loadFramesLoop.simps(1))


text \<open>
  Claim C1 says that with disposals 0, 2, 3 the RestorePrevious of frame 2 restores the
  canvas to the state of frame 1. On the example reader with disposals 0, 2, 3, 0, read
  through the reader worker, the restore point after frame 2 is indeed frame 1, but its
  bitmap was transferred when it was yielded: preparing the canvas for frame 3 raises
  \<^verbatim>\<open>InvalidStateError\<close>, the canvas is not restored and the generator ends after three
  frames.
\<close>

theorem restore_previous_raises_in_reader_worker:
  "map disposal (map (frameInfo (exampleReader [0, 2, 3, 0])) [0, 1, 2]) = [0, 2, 3] \<and>
   loadFramesLoop (exampleReader [0, 2, 3, 0]) dI readerWorker 3 = (None, exampleAfter 2) \<and>
   LoadFramesState.prevRestorePoint (exampleAfter 2) = Some (exampleYield 1 [1, 0, 0, 255, 2, 0, 0, 255]) \<and>
   detached (exampleAfter 2) = [0, 1, 2] \<and>
   prepareCanvas dI (exampleAfter 2) = Inl InvalidStateError \<and>
   loadFrames (exampleReader [0, 2, 3, 0]) dI readerWorker =
     ([exampleYield 0 [1, 0, 0, 255, 1, 0, 0, 255],
       exampleYield 1 [1, 0, 0, 255, 2, 0, 0, 255],
       exampleYield 2 [3, 0, 0, 255, 0, 0, 0, 0]], Some InvalidStateError)"
proof (intro conjI)
  show "map disposal (map (frameInfo (exampleReader [0, 2, 3, 0])) [0, 1, 2]) = [0, 2, 3]"
    by (simp add: exampleReader_def exampleInfo_def)
  show "loadFramesLoop (exampleReader [0, 2, 3, 0]) dI readerWorker 3 = (None, exampleAfter 2)"
    using example_loop(3) by (simp only: numeral_3_eq_3)
  show "LoadFramesState.prevRestorePoint (exampleAfter 2) =
          Some (exampleYield 1 [1, 0, 0, 255, 2, 0, 0, 255])"
    by (simp add: exampleAfter_def exampleState_def exampleYields_def)
  show "detached (exampleAfter 2) = [0, 1, 2]"
    by (simp add: exampleAfter_def exampleState_def)
  show "prepareCanvas dI (exampleAfter 2) = Inl InvalidStateError"
    by (simp add: example_defs)
  have n: "numFrames (exampleReader [0, 2, 3, 0]) = Suc (Suc (Suc (Suc 0)))"
    by (simp add: exampleReader_def)
  show "loadFrames (exampleReader [0, 2, 3, 0]) dI readerWorker =
     ([exampleYield 0 [1, 0, 0, 255, 1, 0, 0, 255],
       exampleYield 1 [1, 0, 0, 255, 2, 0, 0, 255],
       exampleYield 2 [3, 0, 0, 255, 0, 0, 0, 0]], Some InvalidStateError)"
    unfolding loadFrames_def n example_loop(4)
    by (simp add: exampleAfter_def exampleState_def exampleYields_def)
qed


text \<open>
  Claim C5 as stated makes the compositor fail with \<^verbatim>\<open>NoRestorePoint\<close> on a file whose
  frame 0 declares RestorePrevious. On the example reader with disposals 3, 3 the
  restore point for frame 1 is frame 0: a consumer that keeps the bitmaps gets both
  frames and no exception, and the reader worker gets frame 0 and then the
  \<^verbatim>\<open>InvalidStateError\<close> of the transferred bitmap.
\<close>

theorem restore_previous_on_frame0_counterexample:
  "disposal (frameInfo (exampleReader [3, 3]) 0) = 3 \<and>
   loadFrames (exampleReader [3, 3]) exampleDraw keepsBitmaps =
     ([exampleYield 0 [1, 0, 0, 255, 1, 0, 0, 255], exampleYield 1 [1, 0, 0, 255, 2, 0, 0, 255]], None) \<and>
   loadFrames (exampleReader [3, 3]) exampleDraw readerWorker =
     ([exampleYield 0 [1, 0, 0, 255, 1, 0, 0, 255]], Some InvalidStateError)"
proof (intro conjI)
  let ?f0 = "exampleYield 0 [1, 0, 0, 255, 1, 0, 0, 255]"
  let ?f1 = "exampleYield 1 [1, 0, 0, 255, 2, 0, 0, 255]"
  let ?r = "exampleReader [3, 3]"
  have n: "numFrames ?r = Suc (Suc 0)" by (simp add: exampleReader_def)
  have k1: "compositeFrame ?r exampleDraw keepsBitmaps 0 (initialState ?r) =
      Inr (exampleState [1, 0, 0, 255, 1, 0, 0, 255] (exampleInfo 0 2 3) ?f0
             [1, 0, 0, 255, 1, 0, 0, 255] [?f0] [])"
    by (simp add: example_defs initialState_def blankImage_def upt_rec)
  have k2: "compositeFrame ?r exampleDraw keepsBitmaps (Suc 0)
      (exampleState [1, 0, 0, 255, 1, 0, 0, 255] (exampleInfo 0 2 3) ?f0
             [1, 0, 0, 255, 1, 0, 0, 255] [?f0] []) =
      Inr (exampleState [1, 0, 0, 255, 2, 0, 0, 255] (exampleInfo 1 1 3) ?f0
             [2, 0, 0, 255, 2, 0, 0, 255] [?f0, ?f1] [])"
    by (simp add: example_defs exampleDraw_def upt_rec)
  have kl: "loadFramesLoop ?r exampleDraw keepsBitmaps (Suc (Suc 0)) =
      (None, exampleState [1, 0, 0, 255, 2, 0, 0, 255] (exampleInfo 1 1 3) ?f0
             [2, 0, 0, 255, 2, 0, 0, 255] [?f0, ?f1] [])"
    by (simp add: example_start k1 k2 del: loadFramesLoop.simps(1))
  show "loadFrames ?r exampleDraw keepsBitmaps = ([?f0, ?f1], None)"
    unfolding loadFrames_def n kl by (simp add: exampleState_def)
  have w1: "compositeFrame ?r exampleDraw readerWorker 0 (initialState ?r) =
      Inr (exampleState [1, 0, 0, 255, 1, 0, 0, 255] (exampleInfo 0 2 3) ?f0
             [1, 0, 0, 255, 1, 0, 0, 255] [?f0] [0])"
    by (simp add: example_defs initialState_def blankImage_def upt_rec)
  have w2: "compositeFrame ?r exampleDraw readerWorker (Suc 0)
      (exampleState [1, 0, 0, 255, 1, 0, 0, 255] (exampleInfo 0 2 3) ?f0
             [1, 0, 0, 255, 1, 0, 0, 255] [?f0] [0]) = Inl InvalidStateError"
    by (simp add: example_defs)
  have wl: "loadFramesLoop ?r exampleDraw readerWorker (Suc (Suc 0)) =
      (Some InvalidStateError, exampleState [1, 0, 0, 255, 1, 0, 0, 255] (exampleInfo 0 2 3) ?f0
             [1, 0, 0, 255, 1, 0, 0, 255] [?f0] [0])"
    by (simp add: example_start w1 w2 del: loadFramesLoop.simps(1))
  show "loadFrames ?r exampleDraw readerWorker = ([?f0], Some InvalidStateError)"
    unfolding loadFrames_def n wl by (simp add: exampleState_def)
  show "disposal (frameInfo ?r 0) = 3" by (simp add: exampleReader_def exampleInfo_def)
qed

lemmas example_gif_defs = compositeFrame_gif_def prepareCanvas_gif_def paintAndStore_gif_def
  decodeAndPaint_def putImageData_def clearRect_def Let_def convertPalette_def
  exampleReader_def exampleInfo_def exampleCanvas_def exampleDraw_def
  exampleFrame_gif_def exampleFrames_gif_def exampleState_gif_def exampleAfter_gif_def

text \<open>
  The loop of \<^verbatim>\<open>src/gif.ts\<close> on the same reader, with a drawing operation that replaces
  the canvas by the bitmap.
\<close>

lemma example_gif_frame0:
  "compositeFrame_gif (exampleReader [0, 2, 3, 0]) exampleDraw 0 (initialState_gif (exampleReader [0, 2, 3, 0])) =
   Inr (exampleAfter_gif 0)"
  by (simp add: example_gif_defs initialState_gif_def blankImage_def upt_rec)

lemma example_gif_frame1:
  "compositeFrame_gif (exampleReader [0, 2, 3, 0]) exampleDraw (Suc 0) (exampleAfter_gif 0) =
   Inr (exampleAfter_gif (Suc 0))"
  by (simp add: example_gif_defs upt_rec)

lemma example_gif_frame2:
  "compositeFrame_gif (exampleReader [0, 2, 3, 0]) exampleDraw (Suc (Suc 0)) (exampleAfter_gif (Suc 0)) =
   Inr (exampleAfter_gif 2)"
  by (simp add: example_gif_defs upt_rec)

lemma example_gif_frame3:
  "compositeFrame_gif (exampleReader [0, 2, 3, 0]) exampleDraw (Suc (Suc (Suc 0))) (exampleAfter_gif 2) =
   Inr (exampleAfter_gif 3)"
  by (simp add: example_gif_defs upt_rec)

lemma example_gif_start:
  "loadFramesLoop_gif (exampleReader ds) dI 0 = Inr (initialState_gif (exampleReader ds))"
  by (simp add: exampleReader_def)

lemma example_gif_loop:
  "loadFramesLoop_gif (exampleReader [0, 2, 3, 0]) exampleDraw (Suc (Suc (Suc (Suc 0)))) =
   Inr (exampleAfter_gif 3)"
  by (simp add: example_gif_start example_gif_frame0 example_gif_frame1 example_gif_frame2
      example_gif_frame3 del: loadFramesLoop_gif.simps(1))

text \<open>
  Claim C10 says that the two variants produce the same canvases frame by frame. On the
  example reader with disposals 0, 2, 3, 0, \<^verbatim>\<open>loadFrames\<close> of \<^verbatim>\<open>src/gif.ts\<close> returns four
  frames, the last painted over the restored snapshot of frame 1. The generator of
  \<^verbatim>\<open>src/gif/utils.ts\<close>, read through the reader worker, yields the same first three
  snapshots and then raises \<^verbatim>\<open>InvalidStateError\<close>: there is no fourth frame.
\<close>

theorem variants_differ_in_reader_worker:
  "loadFrames_gif (exampleReader [0, 2, 3, 0]) exampleDraw = Inr exampleFrames_gif \<and>
   length exampleFrames_gif = 4 \<and>
   map GifFrameData_gif.data exampleFrames_gif =
     [exampleCanvas [1, 0, 0, 255, 1, 0, 0, 255], exampleCanvas [1, 0, 0, 255, 2, 0, 0, 255],
      exampleCanvas [3, 0, 0, 255, 0, 0, 0, 0], exampleCanvas [4, 0, 0, 255, 2, 0, 0, 255]] \<and>
   snd (loadFrames (exampleReader [0, 2, 3, 0]) exampleDraw readerWorker) = Some InvalidStateError \<and>
   map GifFrameData.data (fst (loadFrames (exampleReader [0, 2, 3, 0]) exampleDraw readerWorker)) =
     [exampleCanvas [1, 0, 0, 255, 1, 0, 0, 255], exampleCanvas [1, 0, 0, 255, 2, 0, 0, 255],
      exampleCanvas [3, 0, 0, 255, 0, 0, 0, 0]]"
proof -
  have n: "numFrames (exampleReader [0, 2, 3, 0]) = Suc (Suc (Suc (Suc 0)))"
    by (simp add: exampleReader_def)
  have g: "loadFrames_gif (exampleReader [0, 2, 3, 0]) exampleDraw = Inr exampleFrames_gif"
    unfolding loadFrames_gif_def n example_gif_loop
    by (simp add: exampleAfter_gif_def exampleState_gif_def)
  have u: "loadFrames (exampleReader [0, 2, 3, 0]) exampleDraw readerWorker =
             (exampleYields, Some InvalidStateError)"
    unfolding loadFrames_def n example_loop(4)
    by (simp add: exampleAfter_def exampleState_def)
  show ?thesis
    unfolding g u
    by (simp add: exampleFrames_gif_def exampleFrame_gif_def exampleYields_def exampleYield_def)
qed

section \<open>Properties of the encode assembler\<close>

lemma addFrame_counter:
  "addFrame lib dI st f = (None, st') \<Longrightarrow> framesRemaining st' = framesRemaining st - 1"
  by (auto simp: addFrame_def Let_def split: option.splits)

lemma addFrameCalls_counter:
  "addFrameCalls lib dI st fs = (None, st') \<Longrightarrow>
   framesRemaining st' = framesRemaining st - int (length fs)"
proof (induction fs arbitrary: st)
  case Nil
  then show ?case by simp
next
  case (Cons f fs)
  obtain e st1 where a: "addFrame lib dI st f = (e, st1)" by (cases "addFrame lib dI st f")
  with Cons.prems have e: "e = None" by (cases e) auto
  with a Cons.prems have "addFrameCalls lib dI st1 fs = (None, st')" by simp
  from Cons.IH[OF this] addFrame_counter[OF a[unfolded e]] show ?case by simp
qed

text \<open>
  Claim C9, as the code has it. After \<^verbatim>\<open>beginFile\<close> with \<^verbatim>\<open>frameCount\<close> \<open>n\<close> and a run of
  \<^verbatim>\<open>addFrame\<close> calls that all return, \<^verbatim>\<open>done()\<close> holds exactly when the number of calls is
  \<open>n\<close>, and \<^verbatim>\<open>framesRemaining\<close> is \<open>n\<close> minus that number. \<^verbatim>\<open>addFrame\<close> has no check of its
  own: a further call returns normally exactly when the writer of the codec accepts the
  frame, whether or not the assembler is complete; it then decrements the counter, so
  after a call on a complete assembler \<^verbatim>\<open>done()\<close> is false again.
\<close>

theorem done_after_frameCount_calls:
  assumes "beginFile lib metadata colors = Inr st0"
    and "addFrameCalls lib dI st0 fs = (None, st)"
  shows "(isDone st \<longleftrightarrow> length fs = frameCount metadata) \<and>
         framesRemaining st = int (frameCount metadata) - int (length fs) \<and>
         (fst (addFrame lib dI st f) = None \<longleftrightarrow>
            gfAddFrame lib (gf st) 0 0 (Assembler.width st) (Assembler.height st)
              (encodeImage \<lparr>ImageData.width = Assembler.width st, height = Assembler.height st,
                             data = ImageData.data (dI (GifFrameData.data f) (context2d st))\<rparr>
                 (palette f))
              (GifFrameData.delay f)
              (if isPaletteGlobal f then None else Some (palette f)) \<noteq> None) \<and>
         (fst (addFrame lib dI st f) = None \<longrightarrow>
            framesRemaining (snd (addFrame lib dI st f)) = framesRemaining st - 1 \<and>
            (isDone st \<longrightarrow> \<not> isDone (snd (addFrame lib dI st f))))"
proof -
  from assms(1) have r0: "framesRemaining st0 = int (frameCount metadata)"
    by (auto simp: beginFile_def split: option.splits)
  from addFrameCalls_counter[OF assms(2)] r0
  have r: "framesRemaining st = int (frameCount metadata) - int (length fs)" by simp
  have acc: "fst (addFrame lib dI st f) = None \<longleftrightarrow>
            gfAddFrame lib (gf st) 0 0 (Assembler.width st) (Assembler.height st)
              (encodeImage \<lparr>ImageData.width = Assembler.width st, height = Assembler.height st,
                             data = ImageData.data (dI (GifFrameData.data f) (context2d st))\<rparr>
                 (palette f))
              (GifFrameData.delay f)
              (if isPaletteGlobal f then None else Some (palette f)) \<noteq> None"
    by (simp add: addFrame_def Let_def split: option.splits)
  have dec: "fst (addFrame lib dI st f) = None \<longrightarrow>
            framesRemaining (snd (addFrame lib dI st f)) = framesRemaining st - 1"
    using addFrame_counter[of lib dI st f "snd (addFrame lib dI st f)"]
    by (cases "addFrame lib dI st f") auto
  from r have d: "isDone st \<longleftrightarrow> length fs = frameCount metadata"
    by (auto simp: isDone_def)
  from dec have nd: "fst (addFrame lib dI st f) = None \<longrightarrow>
            (isDone st \<longrightarrow> \<not> isDone (snd (addFrame lib dI st f)))"
    by (auto simp: isDone_def)
  from r acc dec d nd show ?thesis by blast
qed

text \<open>
  Claim C9 at \<^verbatim>\<open>frameCount\<close> 2: after two calls the assembler is complete.
\<close>

theorem done_after_frameCount_calls_witness:
  "beginFile exampleWriter (exampleMetadata\<lparr>frameCount := 2\<rparr>) None =
     Inr (exampleAssembler 2 (blankImage 1 1) []) \<and>
   addFrameCalls exampleWriter exampleDraw (exampleAssembler 2 (blankImage 1 1) [])
     [exampleFrame 0 10, exampleFrame 1 20] =
     (None, exampleAssembler 0 (GifFrameData.data (exampleFrame 1 20)) [10, 20]) \<and>
   isDone (exampleAssembler 0 (GifFrameData.data (exampleFrame 1 20)) [10, 20]) \<and>
   framesRemaining (exampleAssembler 0 (GifFrameData.data (exampleFrame 1 20)) [10, 20]) = 0"
proof -
  have h1: "beginFile exampleWriter (exampleMetadata\<lparr>frameCount := 2\<rparr>) None =
     Inr (exampleAssembler 2 (blankImage 1 1) [])"
    by (simp add: beginFile_def exampleWriter_def exampleMetadata_def exampleAssembler_def)
  have h2: "addFrameCalls exampleWriter exampleDraw (exampleAssembler 2 (blankImage 1 1) [])
     [exampleFrame 0 10, exampleFrame 1 20] =
     (None, exampleAssembler 0 (GifFrameData.data (exampleFrame 1 20)) [10, 20])"
    by (simp add: addFrame_def exampleWriter_def exampleDraw_def exampleAssembler_def
        exampleFrame_def Let_def)
  from done_after_frameCount_calls[OF h1 h2, of "exampleFrame 2 5"]
  have "isDone (exampleAssembler 0 (GifFrameData.data (exampleFrame 1 20)) [10, 20])"
    and "framesRemaining (exampleAssembler 0 (GifFrameData.data (exampleFrame 1 20)) [10, 20]) = 0"
    by simp_all
  with h1 h2 show ?thesis by simp
qed

text \<open>
  Claim C9 as stated makes \<^verbatim>\<open>addFrame\<close> fail after completion. With \<^verbatim>\<open>frameCount\<close> 1 the
  first call completes the assembler; the second call is accepted, the writer receives
  a second frame, and the counter becomes -1.
\<close>

theorem addFrame_after_completion_counterexample:
  "beginFile exampleWriter (exampleMetadata\<lparr>frameCount := 1\<rparr>) None =
     Inr (exampleAssembler 1 (blankImage 1 1) []) \<and>
   addFrame exampleWriter exampleDraw (exampleAssembler 1 (blankImage 1 1) []) (exampleFrame 0 10) =
     (None, exampleAssembler 0 (GifFrameData.data (exampleFrame 0 10)) [10]) \<and>
   isDone (exampleAssembler 0 (GifFrameData.data (exampleFrame 0 10)) [10]) \<and>
   addFrame exampleWriter exampleDraw (exampleAssembler 0 (GifFrameData.data (exampleFrame 0 10)) [10])
     (exampleFrame 1 20) =
     (None, exampleAssembler (- 1) (GifFrameData.data (exampleFrame 1 20)) [10, 20]) \<and>
   \<not> isDone (exampleAssembler (- 1) (GifFrameData.data (exampleFrame 1 20)) [10, 20])"
  by (simp add: beginFile_def addFrame_def exampleWriter_def exampleMetadata_def exampleDraw_def
      exampleFrame_def exampleAssembler_def isDone_def Let_def)

end
